theory Spec2Isabelle
  imports Complex_Main
begin

section \<open>Data utilities for CIFAR-10 and CIFAR-100: the data model\<close>

text \<open>
  The module \<^verbatim>\<open>baselines/cifar/data_utils.py\<close> has three top-level functions,
  \<^verbatim>\<open>normalize_convert_image\<close>, \<^verbatim>\<open>load_dataset\<close> (with the nested
  \<^verbatim>\<open>preprocess\<close>) and \<^verbatim>\<open>augment_and_mix\<close> (with its caller \<^verbatim>\<open>_augmix\<close>).

  Conventions of the embedding:
  \<^item> Python floats (\<^verbatim>\<open>proportion\<close>, the sampled weights, pixel values) are real numbers:
    rounding, infinities and NaN are not represented.
  \<^item> A tensor is its shape and its values by index; the elementwise operations take the
    shape of their left operand, the operands of the module's own additions having one
    shape whenever the augmenter returns an image of the shape it was given.
  \<^item> The tensor runtime and the augmenter are collaborators: their operations are the
    fields of a \<open>runtime\<close> record, each random one threading the generator state.
  \<^item> Calls that reach a collaborator whose order matters (the dataset catalogue, the
    logger, the augmenter) are recorded as events.
  \<^item> Every Python exception of the module itself is a value of \<open>error\<close>.
\<close>

datatype error = ValueError string | KeyError string | IndexError

datatype dtype = BFloat16 | Float32

record tensor =
  shape :: "nat list"
  vals :: "nat list \<Rightarrow> real"

datatype event =
    BuilderInfo string
  | Load string string
  | Warning string
  | Distort tensor tensor



text \<open>
  The dictionary \<^verbatim>\<open>aug_params\<close>: one optional entry per key the module reads, \<open>None\<close>
  when the key is absent.
\<close>

record aug_params =
  adaptive_mixup :: "bool option"
  random_augment :: "bool option"
  mixup_alpha :: "real option"
  ensemble_size :: "nat option"
  label_smoothing :: "real option"
  augmix :: "bool option"
  augmix_depth :: "int option"
  augmix_width :: "int option"
  augmix_prob_coeff :: "real option"
  aug_count :: "int option"
  mixup_coeff :: "real list list option"

definition empty_params :: aug_params where
  "empty_params = \<lparr>adaptive_mixup = None, random_augment = None, mixup_alpha = None,
     ensemble_size = None, label_smoothing = None, augmix = None, augmix_depth = None,
     augmix_width = None, augmix_prob_coeff = None, aug_count = None, mixup_coeff = None\<rparr>"

text \<open>\<^verbatim>\<open>if aug_params is None: aug_params = {}\<close>.\<close>

definition effective_params :: "aug_params option \<Rightarrow> aug_params" where
  "effective_params caller_params = (case caller_params of None \<Rightarrow> empty_params | Some p \<Rightarrow> p)"

text \<open>\<^verbatim>\<open>d.get(key, default)\<close>.\<close>

definition get_default :: "'a option \<Rightarrow> 'a \<Rightarrow> 'a" where
  "get_default entry d = (case entry of None \<Rightarrow> d | Some v \<Rightarrow> v)"


record ds_info =
  image_shape :: "nat \<times> nat \<times> nat"
  train_num_examples :: nat
  num_classes :: nat

text \<open>The closure of the nested \<^verbatim>\<open>preprocess\<close>: the variables of \<^verbatim>\<open>load_dataset\<close> it reads.\<close>

record closure =
  c_split :: string
  c_image_shape :: "nat \<times> nat \<times> nat"
  c_random_augment :: bool
  c_aug_params :: aug_params
  c_normalize :: bool
  c_dtype :: dtype
  c_onehot :: bool
  c_num_classes :: nat

text \<open>The \<^verbatim>\<open>tf.data\<close> pipeline \<^verbatim>\<open>load_dataset\<close> builds: what was loaded, then the stages in order.\<close>

datatype stage =
    Shuffle nat
  | Repeat
  | MapPreprocess closure
  | Batch int bool
  | MapAdaptiveMixup int aug_params
  | MapMixup int aug_params
  | Prefetch

record dataset =
  loaded_name :: string
  loaded_split :: string
  stages :: "stage list"


section \<open>Python and TensorFlow primitives\<close>

definition TRAIN :: string where
  "TRAIN = ''train''"

definition TEST :: string where
  "TEST = ''test''"

text \<open>\<^verbatim>\<open>int(x)\<close> on a float truncates towards zero.\<close>

definition py_int :: "real \<Rightarrow> int" where
  "py_int x = (if 0 \<le> x then \<lfloor>x\<rfloor> else \<lceil>x\<rceil>)"

text \<open>\<^verbatim>\<open>'{}'.format(n)\<close> for an integer: its decimal digits.\<close>

function str_nat :: "nat \<Rightarrow> string" where
  "str_nat n = (if n < 10 then [''0123456789'' ! n]
                else str_nat (n div 10) @ [''0123456789'' ! (n mod 10)])"
  by pat_completeness auto
termination
  by (relation "measure id") auto

declare str_nat.simps [simp del]

definition str_int :: "int \<Rightarrow> string" where
  "str_int i = (if i < 0 then CHR ''-'' # str_nat (nat (- i)) else str_nat (nat i))"

definition tf_ones :: "nat \<Rightarrow> nat \<Rightarrow> real list list" where
  "tf_ones m n = replicate m (replicate n 1)"






section \<open>normalize_convert_image\<close>





section \<open>load_dataset\<close>

text \<open>
  The function returns the pipeline or the error raised, together with the caller's
  \<^verbatim>\<open>aug_params\<close> object as the call leaves it (\<open>None\<close> when the caller passed none: the
  function then works on a dictionary of its own) and the events so far.
  \<open>builder\<close> is the catalogue's \<^verbatim>\<open>tfds.builder(name).info\<close>.
\<close>

definition load_dataset ::
  "(string \<Rightarrow> ds_info) \<Rightarrow> string \<Rightarrow> int \<Rightarrow> string \<Rightarrow> bool \<Rightarrow> bool \<Rightarrow> bool \<Rightarrow> real \<Rightarrow> bool \<Rightarrow> real
     \<Rightarrow> aug_params option \<Rightarrow> event list
     \<Rightarrow> (error + dataset) \<times> aug_params option \<times> event list" where
  "load_dataset builder split batch_size name use_bfloat16 normalize_flag drop_remainder
       proportion validation_set validation_proportion caller_params evs =
    (if proportion < 0 \<or> proportion > 1 then
       (Inl (ValueError ''proportion needs to lie in the range [0, 1]''), caller_params, evs)
     else if validation_proportion < 0 \<or> validation_proportion > 1 then
       (Inl (ValueError ''validation_proportion needs to lie in the range [0, 1]''),
        caller_params, evs)
     else
       let dt = (if use_bfloat16 then BFloat16 else Float32);
           info = builder name;
           evs = evs @ [BuilderInfo name];
           dataset_size = train_num_examples info;
           aug = effective_params caller_params;
           adaptive = get_default (adaptive_mixup aug) False;
           random_aug = get_default (random_augment aug) False;
           alpha = get_default (mixup_alpha aug) 0;
           ens_size = get_default (ensemble_size aug) 1;
           smoothing = get_default (label_smoothing aug) 0;
           aug = (if adaptive \<and> mixup_coeff aug = None
                  then aug\<lparr>mixup_coeff := Some (tf_ones ens_size (num_classes info))\<rparr>
                  else aug);
           caller_params = (case caller_params of None \<Rightarrow> None | Some _ \<Rightarrow> Some aug);
           onehot = (alpha > 0 \<or> smoothing > 0);
           cl = \<lparr>c_split = split, c_image_shape = image_shape info,
                 c_random_augment = random_aug, c_aug_params = aug,
                 c_normalize = normalize_flag, c_dtype = dt, c_onehot = onehot,
                 c_num_classes = num_classes info\<rparr>;
           (src, evs) =
             (if proportion = 1 then
                if validation_set then
                  let new_name = name @ '':3.*.*'' in
                  if split = ''validation'' then
                    let new_split = ''train['' @
                          str_int (py_int (100 * (1 - validation_proportion))) @ ''%:]''
                    in ((new_name, new_split), evs @ [Load new_name new_split])
                  else if split = TRAIN then
                    let new_split = ''train[:'' @
                          str_int (py_int (100 * (1 - validation_proportion))) @ ''%]''
                    in ((name, ''train[:95%]''), evs @ [Load name ''train[:95%]''])
                  else ((name, split), evs @ [Load name split])
                else ((name, split), evs @ [Load name split])
              else
                let evs = evs @ [Warning
                      ''Subset of training dataset is being used without a validation set.''];
                    new_name = name @ '':3.*.*'';
                    new_split =
                      (if split = TRAIN
                       then ''train[:'' @ str_int (py_int (100 * proportion)) @ ''%]''
                       else ''test[:'' @ str_int (py_int (100 * proportion)) @ ''%]'')
                in ((new_name, new_split), evs @ [Load new_name new_split]));
           st = (if split = TRAIN then [Shuffle dataset_size, Repeat] else []);
           st = st @ [MapPreprocess cl];
           st = st @ [Batch batch_size drop_remainder];
           st = (if alpha > 0 \<and> split = TRAIN then
                   if adaptive then st @ [MapAdaptiveMixup batch_size aug]
                   else st @ [MapMixup batch_size aug]
                 else st);
           st = st @ [Prefetch]
       in (Inr \<lparr>loaded_name = fst src, loaded_split = snd src, stages = st\<rparr>,
           caller_params, evs))"

section \<open>augment_and_mix\<close>





section \<open>_augmix\<close>



section \<open>preprocess\<close>





section \<open>Notions the properties are stated with\<close>





section \<open>A concrete catalogue, runtime and image\<close>








section \<open>Properties of load_dataset\<close>

text \<open>
  C1. With \<^verbatim>\<open>proportion == 1.0\<close> and a validation set requested, the training split should
  be the head \<open>1 - validation_proportion\<close> of the nominal training split. At
  \<open>validation_proportion = 1/2\<close> the function formats that slice but loads
  \<^verbatim>\<open>train[:95%]\<close>, under the unversioned name, while the validation split of the same call
  is the tail from 50%.
\<close>

theorem load_dataset_train_head_is_95:
  "map_sum id loaded_split
     (fst (load_dataset builder TRAIN bs name bf nf dr 1 True (1 / 2) cp evs)) = Inr ''train[:95%]''
   \<and> snd (snd (load_dataset builder TRAIN bs name bf nf dr 1 True (1 / 2) cp evs))
       = evs @ [BuilderInfo name, Load name ''train[:95%]'']
   \<and> map_sum id loaded_split
       (fst (load_dataset builder ''validation'' bs name bf nf dr 1 True (1 / 2) cp evs))
       = Inr ''train[50%:]''"
  by (simp add: load_dataset_def Let_def TRAIN_def str_int_def py_int_def str_nat.simps)






text \<open>
  C9. The caller's \<open>aug_params\<close> after the call: when the call passes the two range
  checks, adaptive mixup is requested and \<open>mixup_coeff\<close> is absent, \<open>mixup_coeff\<close> has become
  the all-ones matrix of \<open>ensemble_size\<close> rows and \<open>num_classes\<close> columns, every other entry
  as before; in every other case the parameters are exactly what the caller passed
  (and a caller that passed none has none).
\<close>

theorem load_dataset_params_effect:
  "fst (snd (load_dataset builder split bs name bf nf dr p vs vp cp evs)) =
     (case cp of
        None \<Rightarrow> None
      | Some a \<Rightarrow>
          Some (if 0 \<le> p \<and> p \<le> 1 \<and> 0 \<le> vp \<and> vp \<le> 1
                   \<and> get_default (adaptive_mixup a) False \<and> mixup_coeff a = None
                then a\<lparr>mixup_coeff :=
                        Some (tf_ones (get_default (ensemble_size a) 1)
                                (num_classes (builder name)))\<rparr>
                else a))"
  by (auto simp add: load_dataset_def effective_params_def Let_def
           split: prod.splits option.splits)

section \<open>Properties of augment_and_mix\<close>





















section \<open>Properties of preprocess\<close>





















end
